theory Spec2Isabelle
  imports Main "HOL-Library.Word"
begin

section \<open>JavaScript values seen by the program\<close>

text \<open>
  Every value the program handles at run time is either parsed JSON (what
  \<^verbatim>\<open>response.json()\<close> returns), \<^verbatim>\<open>undefined\<close>, or an \<^verbatim>\<open>Error\<close> instance that was thrown.
  A JSON object is the list of its own properties, each name once. The program never
  computes with a number: it can only print one (in a template literal, in
  \<^verbatim>\<open>JSON.stringify\<close>), so a number is held as the text \<^verbatim>\<open>Number.prototype.toString\<close>
  gives for it, which covers fractions and the exponent notation of large values.
\<close>

datatype json =
    JNull
  | JBool bool
  | JNum string
  | JStr string
  | JArr "json list"
  | JObj "(string \<times> json) list"

text \<open>
  A value held by a variable such as \<^verbatim>\<open>codeAssistResponse\<close>, and anything that can be thrown
  or be the reason of a rejected promise. \<open>ErrorObj name message\<close> is an instance of
  \<^verbatim>\<open>Error\<close> (\<^verbatim>\<open>TypeError\<close>, \<^verbatim>\<open>SyntaxError\<close>, ...).
\<close>

datatype jsvalue =
    Undefined
  | Json json
  | ErrorObj string string

text \<open>
  The expression \<^verbatim>\<open>"error" in v\<close>. On an object it tests for the property; an array and an
  \<^verbatim>\<open>Error\<close> instance are objects without such a property (neither own nor inherited); on
  anything that is not an object the operator throws a \<^verbatim>\<open>TypeError\<close>.
\<close>

fun error_in :: "jsvalue \<Rightarrow> jsvalue + bool" where
  "error_in (Json (JObj fs)) = Inr (''error'' \<in> fst ` set fs)"
| "error_in (Json (JArr xs)) = Inr False"
| "error_in (ErrorObj n m) = Inr False"
| "error_in v = Inl (ErrorObj ''TypeError'' ''Cannot use in operator on a non-object'')"

text \<open>
  Reading a property \<open>k\<close> of a parsed JSON value, for a \<open>k\<close> that is not a built-in property
  name (the program reads \<^verbatim>\<open>cloudaicompanionProject\<close> and \<^verbatim>\<open>access_token\<close>): \<open>None\<close> is
  \<^verbatim>\<open>undefined\<close>; reading a property of \<^verbatim>\<open>null\<close> throws.
\<close>

fun get_prop :: "string \<Rightarrow> json \<Rightarrow> jsvalue + json option" where
  "get_prop k (JObj fs) = Inr (map_of fs k)"
| "get_prop k JNull = Inl (ErrorObj ''TypeError'' ''Cannot read properties of null'')"
| "get_prop k v = Inr None"

subsection \<open>String conversion in a template literal\<close>

fun join_comma :: "string list \<Rightarrow> string" where
  "join_comma [] = []"
| "join_comma [s] = s"
| "join_comma (s # t # ss) = s @ '','' @ join_comma (t # ss)"

text \<open>
  \<^verbatim>\<open>ToString\<close> of a parsed JSON value. A plain object prints as \<^verbatim>\<open>[object Object]\<close> through
  \<^verbatim>\<open>Object.prototype.toString\<close>, unless it has an own property \<^verbatim>\<open>toString\<close>: a JSON value is
  never callable, and \<^verbatim>\<open>valueOf\<close> yields no primitive, so the conversion throws. An array
  joins its elements with commas, \<^verbatim>\<open>null\<close> elements printing as the empty string. A number
  prints as the text that stands for it.
\<close>

fun to_string_throws :: "json \<Rightarrow> bool" where
  "to_string_throws (JObj fs) = (''toString'' \<in> fst ` set fs)"
| "to_string_throws (JArr xs) = list_ex to_string_throws xs"
| "to_string_throws v = False"

fun to_string_text :: "json \<Rightarrow> string" where
  "to_string_text JNull = ''null''"
| "to_string_text (JBool b) = (if b then ''true'' else ''false'')"
| "to_string_text (JNum n) = n"
| "to_string_text (JStr s) = s"
| "to_string_text (JArr xs) =
     join_comma (map (\<lambda>x. if x = JNull then [] else to_string_text x) xs)"
| "to_string_text (JObj fs) = ''[object Object]''"

text \<open>The substitution \<^verbatim>\<open>${v}\<close> of a template literal; \<open>None\<close> is \<^verbatim>\<open>undefined\<close>.\<close>

definition template :: "json option \<Rightarrow> jsvalue + string" where
  "template v =
     (case v of
        None \<Rightarrow> Inr ''undefined''
      | Some j \<Rightarrow>
          if to_string_throws j
          then Inl (ErrorObj ''TypeError'' ''Cannot convert object to primitive value'')
          else Inr (to_string_text j))"

section \<open>Accounts\<close>

text \<open>
  Modelled from the spec: the declaration of \<^verbatim>\<open>AntigravityAccount\<close>
  (\<^verbatim>\<open>commands/types/account.types.ts\<close>) is not among the sources. The token fields are the
  two the sources name, \<^verbatim>\<open>auth.access_token\<close> and \<^verbatim>\<open>auth.id_token\<close> (read by \<^verbatim>\<open>fetchData\<close>,
  listed by the audit report); the identity is \<^verbatim>\<open>context.email\<close>. The spec's refresh handle,
  the token presented to the OAuth refresh grant, is no third field of the code: the field
  the code hands to the grant is \<^verbatim>\<open>auth.id_token\<close>. The other fields are those of the spec's
  data model: \<open>context{project_id}\<close>, \<open>raw_state\<close> and \<open>token_state\<close>. The access token is the
  one field the code assigns, with whatever the token endpoint returned, so it holds any
  JSON value or \<^verbatim>\<open>undefined\<close>.
\<close>

datatype token_state = Valid | UnknownMaybeExpired

record auth_tokens =
  access_token :: "json option"
  id_token :: string

record account_context =
  email :: string
  project_id :: "string option"

record AntigravityAccount =
  auth :: auth_tokens
  context' :: account_context
  raw_state :: "8 word list"
  token_state :: token_state

section \<open>Requests, the environment and the trace of external calls\<close>

datatype payload =
    JsonBody json
  | FormBody "(string \<times> string) list"

record request =
  url :: string
  http_method :: string
  headers :: "(string \<times> string) list"
  payload :: payload

text \<open>
  The external calls a run makes, in order: a call of \<^verbatim>\<open>fetch\<close> (followed by
  \<^verbatim>\<open>response.json()\<close>) and the command \<^verbatim>\<open>AccountCommands.getCurrentAntigravityAccount()\<close>.
\<close>

datatype event =
    Fetch request
  | GetCurrentAccount

text \<open>
  What the program cannot decide itself is a parameter: the two build-time variables
  of \<^verbatim>\<open>import.meta.env\<close> (\<open>None\<close> is \<^verbatim>\<open>undefined\<close>), the outcome of \<^verbatim>\<open>fetch\<close> with
  \<^verbatim>\<open>response.json()\<close> (the parsed body, or what either of them threw), and the outcome of
  \<^verbatim>\<open>getCurrentAntigravityAccount\<close>, whose source is not available (\<open>None\<close> is \<^verbatim>\<open>null\<close>).
  Both outcomes may depend on the calls made before, so a call can fail once and succeed
  when repeated.
\<close>

record env =
  VITE_GOOGLE_OAUTH_CLIENT_ID :: "string option"
  VITE_GOOGLE_OAUTH_CLIENT_SECRET :: "string option"
  fetch_json :: "event list \<Rightarrow> request \<Rightarrow> jsvalue + json"
  getCurrentAntigravityAccount :: "event list \<Rightarrow> jsvalue + AntigravityAccount option"

section \<open>The CloudCode API service\<close>

definition HTTP_CONFIG_baseURL :: string where
  "HTTP_CONFIG_baseURL = ''https://daily-cloudcode-pa.sandbox.googleapis.com''"

definition HTTP_CONFIG_headers :: "(string \<times> string) list" where
  "HTTP_CONFIG_headers =
     [(''User-Agent'', ''antigravity/windows/amd64''),
      (''Content-Type'', ''application/json''),
      (''Accept'', ''application/json'')]"

definition GOOGLE_OAUTH_TOKEN_ENDPOINT :: string where
  "GOOGLE_OAUTH_TOKEN_ENDPOINT = ''https://oauth2.googleapis.com/token''"

text \<open>
  Setting a property of an object, and of a \<^verbatim>\<open>URLSearchParams\<close> whose names are distinct: an
  existing name keeps its place and takes the new value, a new name is appended.
  \<open>spread\<close> is \<^verbatim>\<open>{...xs, ...ys}\<close>.
\<close>

fun set_prop :: "string \<Rightarrow> 'v \<Rightarrow> (string \<times> 'v) list \<Rightarrow> (string \<times> 'v) list" where
  "set_prop k v [] = [(k, v)]"
| "set_prop k v (p # ps) = (if fst p = k then (k, v) # ps else p # set_prop k v ps)"

definition spread :: "(string \<times> 'v) list \<Rightarrow> (string \<times> 'v) list \<Rightarrow> (string \<times> 'v) list" where
  "spread xs ys = foldl (\<lambda>acc kv. set_prop (fst kv) (snd kv) acc) xs ys"

definition getGoogleOAuthClientCredentials :: "env \<Rightarrow> jsvalue + string \<times> string option" where
  "getGoogleOAuthClientCredentials e =
     (let clientId = VITE_GOOGLE_OAUTH_CLIENT_ID e;
          clientSecret = VITE_GOOGLE_OAUTH_CLIENT_SECRET e
      in case clientId of
           None \<Rightarrow> Inl (ErrorObj ''Error''
             ''Missing VITE_GOOGLE_OAUTH_CLIENT_ID (Google OAuth client_id)'')
         | Some cid \<Rightarrow>
             if cid = [] then Inl (ErrorObj ''Error''
               ''Missing VITE_GOOGLE_OAUTH_CLIENT_ID (Google OAuth client_id)'')
             else Inr (cid,
               (case clientSecret of
                  None \<Rightarrow> None
                | Some sec \<Rightarrow> if sec = [] then None else Some sec)))"

text \<open>The request that \<^verbatim>\<open>post(endpoint, data, {headers})\<close> hands to \<^verbatim>\<open>fetch\<close>.\<close>

definition post_request :: "string \<Rightarrow> json \<Rightarrow> (string \<times> string) list \<Rightarrow> request" where
  "post_request endpoint data option_headers =
     \<lparr>url = HTTP_CONFIG_baseURL @ endpoint,
      http_method = ''POST'',
      headers = spread HTTP_CONFIG_headers option_headers,
      payload = JsonBody data\<rparr>"

definition post ::
  "env \<Rightarrow> string \<Rightarrow> json \<Rightarrow> (string \<times> string) list \<Rightarrow> event list
     \<Rightarrow> (jsvalue + json) \<times> event list" where
  "post e endpoint data option_headers tr =
     (let requestConfig = post_request endpoint data option_headers
      in (fetch_json e tr requestConfig, tr @ [Fetch requestConfig]))"

text \<open>
  The test shared by the three wrappers: a parsed response with an \<^verbatim>\<open>error\<close> property is the
  reason of a rejection, any other is the result.
\<close>

definition reject_if_error :: "json \<Rightarrow> jsvalue + json" where
  "reject_if_error response =
     (case error_in (Json response) of
        Inl ex \<Rightarrow> Inl ex
      | Inr True \<Rightarrow> Inl (Json response)
      | Inr False \<Rightarrow> Inr response)"

text \<open>
  \<^verbatim>\<open>JSON.stringify({"project": project})\<close> leaves a property out when its value is
  \<^verbatim>\<open>undefined\<close>.
\<close>

definition project_data :: "json option \<Rightarrow> json" where
  "project_data project =
     (case project of None \<Rightarrow> JObj [] | Some p \<Rightarrow> JObj [(''project'', p)])"

definition fetchAvailableModels ::
  "env \<Rightarrow> json option \<Rightarrow> json option \<Rightarrow> event list \<Rightarrow> (jsvalue + json) \<times> event list" where
  "fetchAvailableModels e authorizationKey project tr =
     (case template authorizationKey of
        Inl ex \<Rightarrow> (Inl ex, tr)
      | Inr key \<Rightarrow>
          (case post e ''/v1internal:fetchAvailableModels'' (project_data project)
                  [(''Authorization'', ''Bearer '' @ key)] tr of
             (Inl ex, tr') \<Rightarrow> (Inl ex, tr')
           | (Inr response, tr') \<Rightarrow> (reject_if_error response, tr')))"

definition loadCodeAssist ::
  "env \<Rightarrow> json option \<Rightarrow> event list \<Rightarrow> (jsvalue + json) \<times> event list" where
  "loadCodeAssist e authorizationKey tr =
     (case template authorizationKey of
        Inl ex \<Rightarrow> (Inl ex, tr)
      | Inr key \<Rightarrow>
          (case post e ''/v1internal:loadCodeAssist''
                  (JObj [(''metadata'', JObj [(''ideType'', JStr ''ANTIGRAVITY'')])])
                  [(''Authorization'', ''Bearer '' @ key)] tr of
             (Inl ex, tr') \<Rightarrow> (Inl ex, tr')
           | (Inr response, tr') \<Rightarrow> (reject_if_error response, tr')))"

text \<open>The requests the two wrappers of the CloudCode endpoints send, by name.\<close>

definition loadCodeAssist_request :: "string \<Rightarrow> request" where
  "loadCodeAssist_request key =
     post_request ''/v1internal:loadCodeAssist''
       (JObj [(''metadata'', JObj [(''ideType'', JStr ''ANTIGRAVITY'')])])
       [(''Authorization'', ''Bearer '' @ key)]"

definition fetchAvailableModels_request :: "string \<Rightarrow> json option \<Rightarrow> request" where
  "fetchAvailableModels_request key project =
     post_request ''/v1internal:fetchAvailableModels'' (project_data project)
       [(''Authorization'', ''Bearer '' @ key)]"

text \<open>
  The body of the refresh request, as the list of the \<^verbatim>\<open>URLSearchParams\<close> before
  \<^verbatim>\<open>body.toString()\<close> serialises it.
\<close>

definition refresh_body :: "string \<Rightarrow> string option \<Rightarrow> string \<Rightarrow> (string \<times> string) list" where
  "refresh_body clientId clientSecret refresh_token =
     (let body = [(''client_id'', clientId),
                  (''grant_type'', ''refresh_token''),
                  (''refresh_token'', refresh_token)]
      in case clientSecret of
           None \<Rightarrow> body
         | Some sec \<Rightarrow> if sec = [] then body else set_prop ''client_secret'' sec body)"

definition refresh_request :: "string \<Rightarrow> string option \<Rightarrow> string \<Rightarrow> request" where
  "refresh_request clientId clientSecret refresh_token =
     \<lparr>url = GOOGLE_OAUTH_TOKEN_ENDPOINT,
      http_method = ''POST'',
      headers = [(''content-type'', ''application/x-www-form-urlencoded'')],
      payload = FormBody (refresh_body clientId clientSecret refresh_token)\<rparr>"

definition refreshAccessToken ::
  "env \<Rightarrow> string \<Rightarrow> event list \<Rightarrow> (jsvalue + json) \<times> event list" where
  "refreshAccessToken e refresh_token tr =
     (case getGoogleOAuthClientCredentials e of
        Inl ex \<Rightarrow> (Inl ex, tr)
      | Inr (clientId, clientSecret) \<Rightarrow>
          (let req = refresh_request clientId clientSecret refresh_token
           in case fetch_json e tr req of
                Inl ex \<Rightarrow> (Inl ex, tr @ [Fetch req])
              | Inr json \<Rightarrow> (reject_if_error json, tr @ [Fetch req])))"

section \<open>The store of available models\<close>

text \<open>
  The state a call of \<^verbatim>\<open>fetchData\<close> works on: the account object it was passed (the caller's
  object, assigned in place), the \<^verbatim>\<open>data\<close> of the store (a \<^verbatim>\<open>Record\<close> from email to the
  model listing) and the external calls made so far.
\<close>

record state =
  account :: AntigravityAccount
  data :: "string \<rightharpoonup> json"
  trace :: "event list"

text \<open>How a block of statements ends: by a throw, by \<^verbatim>\<open>return\<close>, or by falling through.\<close>

datatype flow =
    Thrown jsvalue
  | Returned
  | Continue

text \<open>
  The first part of \<^verbatim>\<open>fetchData\<close>: the call in \<^verbatim>\<open>try\<close>, whose rejection is caught and kept as
  the response, and the block run when the response has an \<^verbatim>\<open>error\<close> property. The
  comparison \<^verbatim>\<open>email === currentAccount?.context.email\<close> is false when there is no current
  account.
\<close>

definition refresh_if_error :: "env \<Rightarrow> state \<Rightarrow> flow \<times> state" where
  "refresh_if_error e s =
     (let antigravityAccount = account s
      in case loadCodeAssist e (access_token (auth antigravityAccount)) (trace s) of
           (r, tr1) \<Rightarrow>
             (let codeAssistResponse = (case r of Inl ex \<Rightarrow> ex | Inr response \<Rightarrow> Json response);
                  s1 = s\<lparr>trace := tr1\<rparr>
              in case error_in codeAssistResponse of
                   Inl ex \<Rightarrow> (Thrown ex, s1)
                 | Inr False \<Rightarrow> (Continue, s1)
                 | Inr True \<Rightarrow>
                     (let s2 = s1\<lparr>trace := tr1 @ [GetCurrentAccount]\<rparr>
                      in case getCurrentAntigravityAccount e tr1 of
                           Inl ex \<Rightarrow> (Thrown ex, s2)
                         | Inr currentAccount \<Rightarrow>
                             if Some (email (context' antigravityAccount))
                                  = map_option (\<lambda>c. email (context' c)) currentAccount
                             then (Returned, s2)
                             else
                               (case refreshAccessToken e (id_token (auth antigravityAccount))
                                       (trace s2) of
                                  (Inl ex, tr3) \<Rightarrow> (Thrown ex, s2\<lparr>trace := tr3\<rparr>)
                                | (Inr refreshTokenResponse, tr3) \<Rightarrow>
                                    (case get_prop ''access_token'' refreshTokenResponse of
                                       Inl ex \<Rightarrow> (Thrown ex, s2\<lparr>trace := tr3\<rparr>)
                                     | Inr tok \<Rightarrow>
                                         (Continue,
                                          s2\<lparr>trace := tr3,
                                             account := antigravityAccount
                                               \<lparr>auth := (auth antigravityAccount)
                                                  \<lparr>access_token := tok\<rparr>\<rparr>\<rparr>))))))"

text \<open>
  The second part: the session call made again, the model listing for the project of
  that response, and \<^verbatim>\<open>setState\<close> with the listing stored under the account's email beside
  the entries \<^verbatim>\<open>getState().data\<close> holds.
\<close>

definition list_models_and_store :: "env \<Rightarrow> state \<Rightarrow> (jsvalue + unit) \<times> state" where
  "list_models_and_store e s =
     (let antigravityAccount = account s
      in case loadCodeAssist e (access_token (auth antigravityAccount)) (trace s) of
           (Inl ex, tr1) \<Rightarrow> (Inl ex, s\<lparr>trace := tr1\<rparr>)
         | (Inr codeAssistResponse, tr1) \<Rightarrow>
             (case get_prop ''cloudaicompanionProject'' codeAssistResponse of
                Inl ex \<Rightarrow> (Inl ex, s\<lparr>trace := tr1\<rparr>)
              | Inr project \<Rightarrow>
                  (case fetchAvailableModels e (access_token (auth antigravityAccount))
                          project tr1 of
                     (Inl ex, tr2) \<Rightarrow> (Inl ex, s\<lparr>trace := tr2\<rparr>)
                   | (Inr modelsResponse, tr2) \<Rightarrow>
                       (Inr (),
                        s\<lparr>trace := tr2,
                          data := (data s)(email (context' antigravityAccount)
                                     \<mapsto> modelsResponse)\<rparr>))))"

text \<open>
  \<^verbatim>\<open>fetchData\<close>: the promise is rejected (\<open>Inl\<close>) or resolved (\<open>Inr ()\<close>); the state returned
  holds the account object, the store and the trace as the call leaves them.
\<close>

definition fetchData :: "env \<Rightarrow> state \<Rightarrow> (jsvalue + unit) \<times> state" where
  "fetchData e s =
     (case refresh_if_error e s of
        (Thrown ex, s') \<Rightarrow> (Inl ex, s')
      | (Returned, s') \<Rightarrow> (Inr (), s')
      | (Continue, s') \<Rightarrow> list_models_and_store e s')"

subsection \<open>Counting the external calls of a trace\<close>

fun is_refresh_call :: "event \<Rightarrow> bool" where
  "is_refresh_call (Fetch r) = (url r = GOOGLE_OAUTH_TOKEN_ENDPOINT)"
| "is_refresh_call GetCurrentAccount = False"

fun is_session_init_call :: "event \<Rightarrow> bool" where
  "is_session_init_call (Fetch r) = (url r = HTTP_CONFIG_baseURL @ ''/v1internal:loadCodeAssist'')"
| "is_session_init_call GetCurrentAccount = False"

definition refresh_calls :: "event list \<Rightarrow> nat" where
  "refresh_calls tr = length (filter is_refresh_call tr)"

definition session_init_calls :: "event list \<Rightarrow> nat" where
  "session_init_calls tr = length (filter is_session_init_call tr)"

subsection \<open>Shapes of a parsed response\<close>

text \<open>A parsed response that is an object (an array is one), and one with an \<^verbatim>\<open>error\<close> field.\<close>

fun is_object :: "json \<Rightarrow> bool" where
  "is_object (JObj fs) = True"
| "is_object (JArr xs) = True"
| "is_object v = False"


section \<open>The backup codec\<close>

text \<open>
  Modelled from the spec: the export and import commands that seal and open a backup
  (\<^verbatim>\<open>src-tauri/src/commands/account_manage_commands.rs\<close>) are not among the sources. What
  follows is the contract of the spec's BackupCodec. PBKDF2-HMAC-SHA256, AES-256-GCM and
  Base64 are library primitives and stay parameters; the fresh salt and nonce that
  \<open>encode\<close> draws are arguments.
\<close>

unbundle bit_operations_syntax

type_synonym bytes = "8 word list"

record primitives =
  pbkdf2_hmac_sha256 :: "bytes \<Rightarrow> bytes \<Rightarrow> nat \<Rightarrow> bytes"
  aes256gcm_seal :: "bytes \<Rightarrow> bytes \<Rightarrow> bytes \<Rightarrow> bytes"
  aes256gcm_open :: "bytes \<Rightarrow> bytes \<Rightarrow> bytes \<Rightarrow> bytes option"
  base64_decode :: "string \<Rightarrow> bytes option"

datatype codec_error = IntegrityError | DecodeError

record sealed_envelope =
  version :: nat
  kdf :: string
  iterations :: nat
  salt :: bytes
  nonce :: bytes
  ciphertext :: bytes

datatype BackupEnvelope =
    Sealed sealed_envelope
  | Legacy string

definition password_bytes :: "string \<Rightarrow> bytes" where
  "password_bytes password = map (\<lambda>c. of_nat (of_char c)) password"

text \<open>
  The legacy format: each byte XOR the password repeated to length. The spec leaves the
  empty password open; here it changes nothing.
\<close>

definition xor_repeating :: "bytes \<Rightarrow> bytes \<Rightarrow> bytes" where
  "xor_repeating bs pw =
     (if pw = [] then bs
      else map (\<lambda>(i, b). b XOR pw ! (i mod length pw)) (enumerate 0 bs))"

definition encode :: "primitives \<Rightarrow> bytes \<Rightarrow> bytes \<Rightarrow> bytes \<Rightarrow> string \<Rightarrow> BackupEnvelope" where
  "encode c fresh_salt fresh_nonce raw password =
     Sealed \<lparr>version = 2, kdf = ''pbkdf2-sha256'', iterations = 210000,
             salt = fresh_salt, nonce = fresh_nonce,
             ciphertext = aes256gcm_seal c
               (pbkdf2_hmac_sha256 c (password_bytes password) fresh_salt 210000)
               fresh_nonce raw\<rparr>"

definition decode :: "primitives \<Rightarrow> BackupEnvelope \<Rightarrow> string \<Rightarrow> codec_error + bytes" where
  "decode c input password =
     (case input of
        Sealed envelope \<Rightarrow>
          if version envelope = 2
          then (case aes256gcm_open c
                       (pbkdf2_hmac_sha256 c (password_bytes password) (salt envelope)
                          (iterations envelope))
                       (nonce envelope) (ciphertext envelope) of
                  None \<Rightarrow> Inl IntegrityError
                | Some raw \<Rightarrow> Inr raw)
          else Inl DecodeError
      | Legacy text \<Rightarrow>
          (case base64_decode c text of
             None \<Rightarrow> Inl DecodeError
           | Some bs \<Rightarrow> Inr (xor_repeating bs (password_bytes password))))"

text \<open>What an authenticated cipher promises: opening what was sealed, under the same key
  and nonce, gives the plaintext back.\<close>

definition aead_correct :: "primitives \<Rightarrow> bool" where
  "aead_correct c = (\<forall>k n p. aes256gcm_open c k n (aes256gcm_seal c k n p) = Some p)"

text \<open>
  A stand-in for the primitives, for running the codec on an example: the key is the
  password followed by the salt, sealing prefixes key and nonce, opening checks the prefix.
\<close>

definition toy_primitives :: primitives where
  "toy_primitives =
     \<lparr>pbkdf2_hmac_sha256 = (\<lambda>pw s n. pw @ s),
      aes256gcm_seal = (\<lambda>k n p. k @ n @ p),
      aes256gcm_open = (\<lambda>k n ct.
        if take (length k + length n) ct = k @ n
        then Some (drop (length k + length n) ct) else None),
      base64_decode = (\<lambda>t. None)\<rparr>"

section \<open>Example runs\<close>

text \<open>
  Two accounts, and environments in which \<^verbatim>\<open>alice\<close> is the account the host is using. In
  \<open>expired_env\<close> the session endpoint accepts only the token the refresh grant hands out;
  in \<open>healthy_env\<close> it accepts every token and names another project on each call after the
  first; in \<open>no_project_env\<close> its response names no project, and no OAuth client id is
  configured; in \<open>revoked_env\<close> every token is refused and the refresh grant is refused as
  well; in \<open>flaky_env\<close> the first request fails in transport and every later one succeeds;
  in \<open>stale_session_env\<close> the refresh grant succeeds and the session endpoint refuses every
  token; in \<open>listing_refused_env\<close> the session endpoint accepts every token and the model
  listing is refused.
\<close>

definition alice :: AntigravityAccount where
  "alice =
     \<lparr>auth = \<lparr>access_token = Some (JStr ''at-alice''),
              id_token = ''idt-alice''\<rparr>,
      context' = \<lparr>email = ''alice@example.com'', project_id = None\<rparr>,
      raw_state = [], token_state = UnknownMaybeExpired\<rparr>"

definition bob :: AntigravityAccount where
  "bob =
     \<lparr>auth = \<lparr>access_token = Some (JStr ''at-bob-old''),
              id_token = ''idt-bob''\<rparr>,
      context' = \<lparr>email = ''bob@example.com'', project_id = None\<rparr>,
      raw_state = [], token_state = UnknownMaybeExpired\<rparr>"

definition expired_env :: env where
  "expired_env =
     \<lparr>VITE_GOOGLE_OAUTH_CLIENT_ID = Some ''client-1'',
      VITE_GOOGLE_OAUTH_CLIENT_SECRET = None,
      fetch_json = (\<lambda>tr req.
        if url req = GOOGLE_OAUTH_TOKEN_ENDPOINT
        then Inr (JObj [(''access_token'', JStr ''at-bob-new'')])
        else if url req = HTTP_CONFIG_baseURL @ ''/v1internal:loadCodeAssist''
        then (if map_of (headers req) ''Authorization'' = Some ''Bearer at-bob-new''
              then Inr (JObj [(''cloudaicompanionProject'', JStr ''project-7'')])
              else Inr (JObj [(''error'', JObj [(''code'', JNum ''401'')])]))
        else Inr (JObj [(''models'', JObj [])])),
      getCurrentAntigravityAccount = (\<lambda>tr. Inr (Some alice))\<rparr>"

definition healthy_env :: env where
  "healthy_env =
     \<lparr>VITE_GOOGLE_OAUTH_CLIENT_ID = Some ''client-1'',
      VITE_GOOGLE_OAUTH_CLIENT_SECRET = Some ''secret-1'',
      fetch_json = (\<lambda>tr req.
        if url req = HTTP_CONFIG_baseURL @ ''/v1internal:loadCodeAssist''
        then Inr (JObj [(''cloudaicompanionProject'',
               JStr (if tr = [] then ''project-1'' else ''project-2''))])
        else Inr (JObj [(''models'', JObj [])])),
      getCurrentAntigravityAccount = (\<lambda>tr. Inr (Some alice))\<rparr>"

definition no_project_env :: env where
  "no_project_env =
     \<lparr>VITE_GOOGLE_OAUTH_CLIENT_ID = None,
      VITE_GOOGLE_OAUTH_CLIENT_SECRET = None,
      fetch_json = (\<lambda>tr req.
        if url req = HTTP_CONFIG_baseURL @ ''/v1internal:loadCodeAssist''
        then Inr (JObj [])
        else Inr (JObj [(''models'', JObj [])])),
      getCurrentAntigravityAccount = (\<lambda>tr. Inr (Some alice))\<rparr>"

definition revoked_env :: env where
  "revoked_env =
     \<lparr>VITE_GOOGLE_OAUTH_CLIENT_ID = Some ''client-1'',
      VITE_GOOGLE_OAUTH_CLIENT_SECRET = None,
      fetch_json = (\<lambda>tr req.
        if url req = GOOGLE_OAUTH_TOKEN_ENDPOINT
        then Inr (JObj [(''error'', JStr ''invalid_grant'')])
        else Inr (JObj [(''error'', JObj [(''code'', JNum ''401'')])])),
      getCurrentAntigravityAccount = (\<lambda>tr. Inr (Some alice))\<rparr>"

definition flaky_env :: env where
  "flaky_env =
     \<lparr>VITE_GOOGLE_OAUTH_CLIENT_ID = Some ''client-1'',
      VITE_GOOGLE_OAUTH_CLIENT_SECRET = None,
      fetch_json = (\<lambda>tr req.
        if tr = [] then Inl (ErrorObj ''TypeError'' ''Failed to fetch'')
        else if url req = HTTP_CONFIG_baseURL @ ''/v1internal:loadCodeAssist''
        then Inr (JObj [(''cloudaicompanionProject'', JStr ''project-1'')])
        else Inr (JObj [(''models'', JObj [])])),
      getCurrentAntigravityAccount = (\<lambda>tr. Inr (Some alice))\<rparr>"

definition stale_session_env :: env where
  "stale_session_env =
     \<lparr>VITE_GOOGLE_OAUTH_CLIENT_ID = Some ''client-1'',
      VITE_GOOGLE_OAUTH_CLIENT_SECRET = None,
      fetch_json = (\<lambda>tr req.
        if url req = GOOGLE_OAUTH_TOKEN_ENDPOINT
        then Inr (JObj [(''access_token'', JStr ''at-bob-new'')])
        else Inr (JObj [(''error'', JObj [(''code'', JNum ''401'')])])),
      getCurrentAntigravityAccount = (\<lambda>tr. Inr (Some alice))\<rparr>"

definition listing_refused_env :: env where
  "listing_refused_env =
     \<lparr>VITE_GOOGLE_OAUTH_CLIENT_ID = Some ''client-1'',
      VITE_GOOGLE_OAUTH_CLIENT_SECRET = None,
      fetch_json = (\<lambda>tr req.
        if url req = HTTP_CONFIG_baseURL @ ''/v1internal:loadCodeAssist''
        then Inr (JObj [(''cloudaicompanionProject'', JStr ''project-1'')])
        else Inr (JObj [(''error'', JObj [(''code'', JNum ''403'')])])),
      getCurrentAntigravityAccount = (\<lambda>tr. Inr (Some alice))\<rparr>"

definition start :: "AntigravityAccount \<Rightarrow> state" where
  "start a = \<lparr>account = a, data = Map.empty, trace = []\<rparr>"

section \<open>How the wrappers act on the trace and on a response\<close>

lemma url_post_request: "url (post_request ep d h) = HTTP_CONFIG_baseURL @ ep"
  by (simp add: post_request_def)

lemma url_refresh_request: "url (refresh_request c s t) = GOOGLE_OAUTH_TOKEN_ENDPOINT"
  by (simp add: refresh_request_def)

lemma is_refresh_post [simp]: "\<not> is_refresh_call (Fetch (post_request ep d h))"
  by (simp add: post_request_def HTTP_CONFIG_baseURL_def GOOGLE_OAUTH_TOKEN_ENDPOINT_def)

lemma is_refresh_refresh [simp]: "is_refresh_call (Fetch (refresh_request c s t))"
  by (simp add: refresh_request_def)

lemma is_session_refresh [simp]: "\<not> is_session_init_call (Fetch (refresh_request c s t))"
  by (simp add: refresh_request_def HTTP_CONFIG_baseURL_def GOOGLE_OAUTH_TOKEN_ENDPOINT_def)

lemma is_session_load [simp]:
  "is_session_init_call (Fetch (post_request ''/v1internal:loadCodeAssist'' d h))"
  by (simp add: post_request_def)

lemma is_session_models [simp]:
  "\<not> is_session_init_call (Fetch (post_request ''/v1internal:fetchAvailableModels'' d h))"
  by (simp add: post_request_def)

declare is_refresh_call.simps(1) [simp del] is_session_init_call.simps(1) [simp del]

lemma refresh_calls_append [simp]:
  "refresh_calls (tr @ [ev]) = refresh_calls tr + (if is_refresh_call ev then 1 else 0)"
  by (simp add: refresh_calls_def)

lemma session_init_calls_append [simp]:
  "session_init_calls (tr @ [ev]) =
     session_init_calls tr + (if is_session_init_call ev then 1 else 0)"
  by (simp add: session_init_calls_def)

lemma loadCodeAssist_unfold:
  "loadCodeAssist e k tr =
     (case template k of
        Inl ex \<Rightarrow> (Inl ex, tr)
      | Inr key \<Rightarrow>
          (let req = post_request ''/v1internal:loadCodeAssist''
                  (JObj [(''metadata'', JObj [(''ideType'', JStr ''ANTIGRAVITY'')])])
                  [(''Authorization'', ''Bearer '' @ key)]
           in (case fetch_json e tr req of Inl ex \<Rightarrow> Inl ex | Inr r \<Rightarrow> reject_if_error r,
               tr @ [Fetch req])))"
  by (simp add: loadCodeAssist_def post_def Let_def split: sum.splits)

lemma fetchAvailableModels_unfold:
  "fetchAvailableModels e k p tr =
     (case template k of
        Inl ex \<Rightarrow> (Inl ex, tr)
      | Inr key \<Rightarrow>
          (let req = post_request ''/v1internal:fetchAvailableModels'' (project_data p)
                  [(''Authorization'', ''Bearer '' @ key)]
           in (case fetch_json e tr req of Inl ex \<Rightarrow> Inl ex | Inr r \<Rightarrow> reject_if_error r,
               tr @ [Fetch req])))"
  by (simp add: fetchAvailableModels_def post_def Let_def split: sum.splits)

lemma refreshAccessToken_unfold:
  "refreshAccessToken e t tr =
     (case getGoogleOAuthClientCredentials e of
        Inl ex \<Rightarrow> (Inl ex, tr)
      | Inr (cid, sec) \<Rightarrow>
          (case fetch_json e tr (refresh_request cid sec t) of
             Inl ex \<Rightarrow> Inl ex | Inr r \<Rightarrow> reject_if_error r,
           tr @ [Fetch (refresh_request cid sec t)]))"
  by (simp add: refreshAccessToken_def Let_def split: sum.splits prod.splits)


lemma reject_if_error_Inr:
  "reject_if_error r = Inr r' \<Longrightarrow> r' = r \<and> error_in (Json r) = Inr False"
  by (auto simp: reject_if_error_def split: sum.splits bool.splits)

lemma get_prop_object: "error_in (Json r) = Inr b \<Longrightarrow> \<exists>v. get_prop k r = Inr v"
  by (cases r) simp_all

lemma loadCodeAssist_resolved:
  "loadCodeAssist e k tr = (Inr r, tr1) \<Longrightarrow> error_in (Json r) = Inr False"
  by (auto simp: loadCodeAssist_unfold Let_def split: sum.splits dest: reject_if_error_Inr)

lemma loadCodeAssist_resolved_trace:
  "loadCodeAssist e k tr = (Inr r, tr1) \<Longrightarrow>
     \<exists>key. template k = Inr key \<and>
       tr1 = tr @ [Fetch (post_request ''/v1internal:loadCodeAssist''
                  (JObj [(''metadata'', JObj [(''ideType'', JStr ''ANTIGRAVITY'')])])
                  [(''Authorization'', ''Bearer '' @ key)])]"
  by (auto simp: loadCodeAssist_unfold Let_def split: sum.splits)

lemma refreshAccessToken_resolved:
  "refreshAccessToken e t tr = (Inr r, tr1) \<Longrightarrow> error_in (Json r) = Inr False"
  by (auto simp: refreshAccessToken_unfold split: sum.splits prod.splits
      dest: reject_if_error_Inr)

lemma loadCodeAssist_refresh_calls:
  "loadCodeAssist e k tr = (r, tr1) \<Longrightarrow> refresh_calls tr1 = refresh_calls tr"
  by (auto simp: loadCodeAssist_unfold Let_def split: sum.splits)

lemma fetchAvailableModels_refresh_calls:
  "fetchAvailableModels e k p tr = (r, tr1) \<Longrightarrow> refresh_calls tr1 = refresh_calls tr"
  by (auto simp: fetchAvailableModels_unfold Let_def split: sum.splits)

lemma refreshAccessToken_refresh_calls:
  "refreshAccessToken e t tr = (r, tr1) \<Longrightarrow> refresh_calls tr1 \<le> refresh_calls tr + 1"
  by (auto simp: refreshAccessToken_unfold split: sum.splits prod.splits)

lemma fetchAvailableModels_session_init_calls:
  "fetchAvailableModels e k p tr = (r, tr1) \<Longrightarrow> session_init_calls tr1 = session_init_calls tr"
  by (auto simp: fetchAvailableModels_unfold Let_def split: sum.splits)




lemma reject_if_error_not_object:
  "\<not> is_object r \<Longrightarrow>
     reject_if_error r = Inl (ErrorObj ''TypeError'' ''Cannot use in operator on a non-object'')"
  by (cases r) (simp_all add: reject_if_error_def)

section \<open>The two parts of fetchData\<close>

lemma list_models_and_store_refresh_calls:
  "refresh_calls (trace (snd (list_models_and_store e s))) = refresh_calls (trace s)"
  by (auto simp: list_models_and_store_def Let_def
      split: prod.splits sum.splits
      dest!: loadCodeAssist_refresh_calls fetchAvailableModels_refresh_calls)

lemma list_models_and_store_account:
  "account (snd (list_models_and_store e s)) = account s"
  by (auto simp: list_models_and_store_def Let_def split: prod.splits sum.splits)

lemma list_models_and_store_data:
  "k \<noteq> email (context' (account s)) \<Longrightarrow> data (snd (list_models_and_store e s)) k = data s k"
  by (auto simp: list_models_and_store_def Let_def split: prod.splits sum.splits)

lemma list_models_and_store_data_cases:
  "data (snd (list_models_and_store e s)) = data s
   \<or> (\<exists>m. data (snd (list_models_and_store e s)) = (data s)(email (context' (account s)) \<mapsto> m))"
  by (auto simp: list_models_and_store_def Let_def split: prod.splits sum.splits)

lemma refresh_if_error_refresh_calls:
  "refresh_calls (trace (snd (refresh_if_error e s))) \<le> refresh_calls (trace s) + 1"
  by (auto simp: refresh_if_error_def Let_def
      split: prod.splits sum.splits bool.splits
      dest!: loadCodeAssist_refresh_calls refreshAccessToken_refresh_calls)

lemma refresh_if_error_frame:
  "refresh_if_error e s = (f, s1) \<Longrightarrow>
     data s1 = data s \<and>
     account s1 = (account s)\<lparr>auth := (auth (account s))
                    \<lparr>access_token := access_token (auth (account s1))\<rparr>\<rparr>"
  by (auto simp: refresh_if_error_def Let_def split: prod.splits sum.splits bool.splits if_splits)

lemma refresh_if_error_email:
  assumes "refresh_if_error e s = (f, s1)"
  shows "email (context' (account s1)) = email (context' (account s))"
proof -
  from refresh_if_error_frame [OF assms]
  have "context' (account s1) =
          context' ((account s)\<lparr>auth := (auth (account s))
                    \<lparr>access_token := access_token (auth (account s1))\<rparr>\<rparr>)"
    by simp
  then show ?thesis by simp
qed

lemma refresh_if_error_resolved:
  assumes "loadCodeAssist e (access_token (auth (account s))) (trace s) = (Inr r, tr1)"
  shows "refresh_if_error e s = (Continue, s\<lparr>trace := tr1\<rparr>)"
  using assms loadCodeAssist_resolved [OF assms]
  by (simp add: refresh_if_error_def Let_def)

lemma refresh_if_error_active:
  assumes "loadCodeAssist e (access_token (auth (account s))) (trace s) = (Inl ex, tr1)"
    and "error_in ex = Inr True"
    and "getCurrentAntigravityAccount e tr1 = Inr (Some current)"
    and "email (context' current) = email (context' (account s))"
  shows "refresh_if_error e s = (Returned, s\<lparr>trace := tr1 @ [GetCurrentAccount]\<rparr>)"
  using assms by (simp add: refresh_if_error_def Let_def)

lemma refresh_if_error_refreshed:
  assumes "loadCodeAssist e (access_token (auth (account s))) (trace s) = (Inl ex, tr1)"
    and "error_in ex = Inr True"
    and "getCurrentAntigravityAccount e tr1 = Inr current"
    and "Some (email (context' (account s))) \<noteq> map_option (\<lambda>c. email (context' c)) current"
    and "refreshAccessToken e (id_token (auth (account s))) (tr1 @ [GetCurrentAccount])
           = (Inr response, tr3)"
  shows "\<exists>tok. get_prop ''access_token'' response = Inr tok \<and>
           refresh_if_error e s =
             (Continue,
              s\<lparr>trace := tr3,
                account := (account s)\<lparr>auth := (auth (account s))\<lparr>access_token := tok\<rparr>\<rparr>\<rparr>)"
proof -
  from refreshAccessToken_resolved [OF assms(5)] get_prop_object
  obtain tok where "get_prop ''access_token'' response = Inr tok" by blast
  with assms show ?thesis by (simp add: refresh_if_error_def Let_def)
qed




lemma refresh_if_error_error_instance:
  assumes "loadCodeAssist e (access_token (auth (account s))) (trace s) = (Inl (ErrorObj n m), tr1)"
  shows "refresh_if_error e s = (Continue, s\<lparr>trace := tr1\<rparr>)"
  using assms by (simp add: refresh_if_error_def Let_def)

lemma fetchData_refresh_calls:
  "refresh_calls (trace (snd (fetchData e s))) \<le> refresh_calls (trace s) + 1"
  using refresh_if_error_refresh_calls [of e s]
  by (auto simp: fetchData_def list_models_and_store_refresh_calls
      split: prod.splits flow.splits)

lemma is_refresh_named [simp]:
  "\<not> is_refresh_call (Fetch (loadCodeAssist_request key))"
  "\<not> is_refresh_call (Fetch (fetchAvailableModels_request key project))"
  by (simp_all add: loadCodeAssist_request_def fetchAvailableModels_request_def)

lemma loadCodeAssist_error_trace:
  "loadCodeAssist e k tr = (Inl ex, tr1) \<Longrightarrow> error_in ex = Inr True \<Longrightarrow>
     \<exists>key. template k = Inr key \<and> tr1 = tr @ [Fetch (loadCodeAssist_request key)]"
  by (auto simp: loadCodeAssist_unfold loadCodeAssist_request_def template_def Let_def
      split: sum.splits option.splits if_splits)

lemma refreshAccessToken_resolved_trace:
  "refreshAccessToken e t tr = (Inr response, tr3) \<Longrightarrow>
     \<exists>clientId clientSecret.
        getGoogleOAuthClientCredentials e = Inr (clientId, clientSecret)
      \<and> tr3 = tr @ [Fetch (refresh_request clientId clientSecret t)]"
  by (auto simp: refreshAccessToken_unfold split: sum.splits prod.splits)

lemma list_models_and_store_trace:
  "\<exists>rest. trace (snd (list_models_and_store e s)) = trace s @ rest
     \<and> (rest = []
        \<or> (\<exists>key. rest = [Fetch (loadCodeAssist_request key)])
        \<or> (\<exists>key project. rest = [Fetch (loadCodeAssist_request key),
                                     Fetch (fetchAvailableModels_request key project)]))"
  by (auto simp: list_models_and_store_def loadCodeAssist_unfold fetchAvailableModels_unfold
        loadCodeAssist_request_def fetchAvailableModels_request_def Let_def
      split: sum.splits)

lemma refresh_if_error_not_error:
  assumes "loadCodeAssist e (access_token (auth (account s))) (trace s) = (Inl ex, tr1)"
    and "error_in ex \<noteq> Inr True"
  shows "refresh_if_error e s = (Continue, s\<lparr>trace := tr1\<rparr>)
       \<or> (\<exists>ex'. refresh_if_error e s = (Thrown ex', s\<lparr>trace := tr1\<rparr>))"
  using assms by (auto simp: refresh_if_error_def Let_def split: sum.splits bool.splits)





section \<open>Evaluating the example runs\<close>

lemmas run_defs =
  fetchData_def refresh_if_error_def list_models_and_store_def
  loadCodeAssist_def fetchAvailableModels_def refreshAccessToken_def post_def post_request_def
  reject_if_error_def template_def project_data_def refresh_request_def refresh_body_def
  getGoogleOAuthClientCredentials_def spread_def HTTP_CONFIG_headers_def
  HTTP_CONFIG_baseURL_def GOOGLE_OAUTH_TOKEN_ENDPOINT_def start_def alice_def bob_def
  expired_env_def healthy_env_def no_project_env_def revoked_env_def flaky_env_def
  stale_session_env_def listing_refused_env_def
  loadCodeAssist_request_def fetchAvailableModels_request_def Let_def

section \<open>The claims\<close>

text \<open>
  C1, as the claim states it, fails: the session call can fail with an error that has no
  \<^verbatim>\<open>error\<close> field. In \<open>flaky_env\<close> the first request throws an \<^verbatim>\<open>Error\<close> instance; the
  block that asks for the current account is skipped, the session call is made again, and
  the listing is cached under the email of \<open>alice\<close>, the account the host is using.
\<close>

theorem thrown_error_counterexample:
  "loadCodeAssist flaky_env (access_token (auth alice)) [] =
     (Inl (ErrorObj ''TypeError'' ''Failed to fetch''),
      [Fetch (loadCodeAssist_request ''at-alice'')])
   \<and> getCurrentAntigravityAccount flaky_env [Fetch (loadCodeAssist_request ''at-alice'')]
       = Inr (Some alice)
   \<and> fst (fetchData flaky_env (start alice)) = Inr ()
   \<and> data (start alice) ''alice@example.com'' = None
   \<and> data (snd (fetchData flaky_env (start alice))) ''alice@example.com''
       = Some (JObj [(''models'', JObj [])])"
  by (simp add: run_defs)

text \<open>
  C1, amended. When the session call is rejected with a value that carries an \<^verbatim>\<open>error\<close>
  field (the failure shape of the endpoint, and the test the code makes) and the account's
  email is that of the current account of the host, \<^verbatim>\<open>fetchData\<close> returns at once: it
  resolves, the account object and the model cache are what they were, and no request went
  to the OAuth token endpoint; the only external calls are the session call and the query
  for the current account. When the session call fails in any other way, \<^verbatim>\<open>fetchData\<close>
  sends no request to the OAuth token endpoint either and leaves the account object as it
  was.
\<close>

theorem active_identity_is_not_refreshed:
  "(\<forall>ex tr1 current.
       loadCodeAssist e (access_token (auth (account s))) (trace s) = (Inl ex, tr1)
     \<and> error_in ex = Inr True
     \<and> getCurrentAntigravityAccount e tr1 = Inr (Some current)
     \<and> email (context' current) = email (context' (account s))
     \<longrightarrow> fetchData e s = (Inr (), s\<lparr>trace := tr1 @ [GetCurrentAccount]\<rparr>)
       \<and> account (snd (fetchData e s)) = account s
       \<and> data (snd (fetchData e s)) = data s
       \<and> refresh_calls (trace (snd (fetchData e s))) = refresh_calls (trace s))
   \<and> (\<forall>ex tr1.
       loadCodeAssist e (access_token (auth (account s))) (trace s) = (Inl ex, tr1)
     \<and> error_in ex \<noteq> Inr True
     \<longrightarrow> account (snd (fetchData e s)) = account s
       \<and> refresh_calls (trace (snd (fetchData e s))) = refresh_calls (trace s))"
proof (intro conjI allI impI)
  fix ex tr1 current
  assume h: "loadCodeAssist e (access_token (auth (account s))) (trace s) = (Inl ex, tr1)
     \<and> error_in ex = Inr True
     \<and> getCurrentAntigravityAccount e tr1 = Inr (Some current)
     \<and> email (context' current) = email (context' (account s))"
  then have r: "refresh_if_error e s = (Returned, s\<lparr>trace := tr1 @ [GetCurrentAccount]\<rparr>)"
    by (intro refresh_if_error_active [of e s ex tr1 current]) simp_all
  from h have c: "refresh_calls tr1 = refresh_calls (trace s)"
    by (blast dest: loadCodeAssist_refresh_calls)
  from r c show "fetchData e s = (Inr (), s\<lparr>trace := tr1 @ [GetCurrentAccount]\<rparr>)"
    "account (snd (fetchData e s)) = account s"
    "data (snd (fetchData e s)) = data s"
    "refresh_calls (trace (snd (fetchData e s))) = refresh_calls (trace s)"
    by (simp_all add: fetchData_def)
next
  fix ex tr1
  assume h: "loadCodeAssist e (access_token (auth (account s))) (trace s) = (Inl ex, tr1)
     \<and> error_in ex \<noteq> Inr True"
  then have c: "refresh_calls tr1 = refresh_calls (trace s)"
    by (blast dest: loadCodeAssist_refresh_calls)
  from h refresh_if_error_not_error [of e s ex tr1]
  have "refresh_if_error e s = (Continue, s\<lparr>trace := tr1\<rparr>)
       \<or> (\<exists>ex'. refresh_if_error e s = (Thrown ex', s\<lparr>trace := tr1\<rparr>))"
    by simp
  with c show "account (snd (fetchData e s)) = account s"
    "refresh_calls (trace (snd (fetchData e s))) = refresh_calls (trace s)"
    by (auto simp: fetchData_def list_models_and_store_account
          list_models_and_store_refresh_calls)
qed

theorem active_identity_is_not_refreshed_witness:
  "fetchData expired_env (start alice) =
     (Inr (),
      \<lparr>account = alice, data = Map.empty,
       trace = [Fetch (loadCodeAssist_request ''at-alice''), GetCurrentAccount]\<rparr>)
   \<and> refresh_calls (trace (snd (fetchData expired_env (start alice)))) = 0
   \<and> account (snd (fetchData flaky_env (start alice))) = alice
   \<and> refresh_calls (trace (snd (fetchData flaky_env (start alice)))) = 0"
proof -
  let ?ex = "Json (JObj [(''error'', JObj [(''code'', JNum ''401'')])])"
  let ?tr1 = "[Fetch (loadCodeAssist_request ''at-alice'')]"
  have a: "loadCodeAssist expired_env (access_token (auth (account (start alice))))
              (trace (start alice)) = (Inl ?ex, ?tr1)
     \<and> error_in ?ex = Inr True
     \<and> getCurrentAntigravityAccount expired_env ?tr1 = Inr (Some alice)
     \<and> email (context' alice) = email (context' (account (start alice)))"
    by (simp add: run_defs)
  have b: "loadCodeAssist flaky_env (access_token (auth (account (start alice))))
              (trace (start alice)) = (Inl (ErrorObj ''TypeError'' ''Failed to fetch''), ?tr1)
     \<and> error_in (ErrorObj ''TypeError'' ''Failed to fetch'') \<noteq> Inr True"
    by (simp add: run_defs)
  from active_identity_is_not_refreshed [of expired_env "start alice"] a
  have 1: "fetchData expired_env (start alice) =
             (Inr (), (start alice)\<lparr>trace := ?tr1 @ [GetCurrentAccount]\<rparr>)
       \<and> refresh_calls (trace (snd (fetchData expired_env (start alice))))
           = refresh_calls (trace (start alice))"
    by blast
  from active_identity_is_not_refreshed [of flaky_env "start alice"] b
  have 2: "account (snd (fetchData flaky_env (start alice))) = account (start alice)
       \<and> refresh_calls (trace (snd (fetchData flaky_env (start alice))))
           = refresh_calls (trace (start alice))"
    by blast
  from 1 2 show ?thesis by (simp add: start_def refresh_calls_def)
qed



text \<open>
  C3. One call of \<^verbatim>\<open>fetchData\<close> sends at most one request to the OAuth token endpoint, and
  none when the first session call resolves.
\<close>

theorem at_most_one_refresh_call:
  "refresh_calls (trace (snd (fetchData e s))) \<le> refresh_calls (trace s) + 1
   \<and> (\<forall>r tr1. loadCodeAssist e (access_token (auth (account s))) (trace s) = (Inr r, tr1)
         \<longrightarrow> refresh_calls (trace (snd (fetchData e s))) = refresh_calls (trace s))"
proof (intro conjI allI impI)
  show "refresh_calls (trace (snd (fetchData e s))) \<le> refresh_calls (trace s) + 1"
    by (rule fetchData_refresh_calls)
next
  fix r tr1
  assume first: "loadCodeAssist e (access_token (auth (account s))) (trace s) = (Inr r, tr1)"
  have "fetchData e s = list_models_and_store e (s\<lparr>trace := tr1\<rparr>)"
    by (simp add: fetchData_def refresh_if_error_resolved [OF first])
  then show "refresh_calls (trace (snd (fetchData e s))) = refresh_calls (trace s)"
    using loadCodeAssist_refresh_calls [OF first]
    by (simp add: list_models_and_store_refresh_calls)
qed

theorem at_most_one_refresh_call_witness:
  "refresh_calls (trace (snd (fetchData expired_env (start bob)))) = 1
   \<and> refresh_calls (trace (snd (fetchData healthy_env (start bob)))) = 0"
proof -
  have first: "loadCodeAssist healthy_env (access_token (auth (account (start bob))))
       (trace (start bob)) =
     (Inr (JObj [(''cloudaicompanionProject'', JStr ''project-1'')]),
      [Fetch (post_request ''/v1internal:loadCodeAssist''
                  (JObj [(''metadata'', JObj [(''ideType'', JStr ''ANTIGRAVITY'')])])
                  [(''Authorization'', ''Bearer at-bob-old'')])])"
    by (simp add: run_defs)
  have "refresh_calls (trace (snd (fetchData healthy_env (start bob)))) = 0"
    using at_most_one_refresh_call [of healthy_env "start bob"] first
    by (simp add: start_def refresh_calls_def)
  moreover have "refresh_calls (trace (snd (fetchData expired_env (start bob)))) = 1"
    by (simp add: run_defs refresh_calls_def is_refresh_call.simps)
  ultimately show ?thesis by simp
qed

text \<open>
  C4, as the claim states it, fails: after a first session call that resolved,
  \<^verbatim>\<open>fetchData\<close> makes the session call a second time. In \<open>healthy_env\<close> the trace holds two
  session calls, and the project sent to the model listing is the one of the second
  response.
\<close>

theorem second_session_call_counterexample:
  "fst (loadCodeAssist healthy_env (access_token (auth bob)) []) =
     Inr (JObj [(''cloudaicompanionProject'', JStr ''project-1'')])
   \<and> session_init_calls (trace (snd (fetchData healthy_env (start bob)))) = 2
   \<and> last (trace (snd (fetchData healthy_env (start bob)))) =
       Fetch (post_request ''/v1internal:fetchAvailableModels''
                (JObj [(''project'', JStr ''project-2'')])
                [(''Authorization'', ''Bearer at-bob-old'')])"
  by (simp add: run_defs session_init_calls_def is_session_init_call.simps)

text \<open>
  C4, amended. When the first session call resolves, \<^verbatim>\<open>fetchData\<close> makes no refresh call,
  leaves the account as it was and makes the session call once more with the same token:
  two session calls in all. When that second call resolves, the request that follows is
  the model listing for the project of the second response.
\<close>

theorem session_call_is_repeated:
  assumes "loadCodeAssist e (access_token (auth (account s))) (trace s) = (Inr r1, tr1)"
  shows "session_init_calls (trace (snd (fetchData e s))) = session_init_calls (trace s) + 2
       \<and> refresh_calls (trace (snd (fetchData e s))) = refresh_calls (trace s)
       \<and> account (snd (fetchData e s)) = account s
       \<and> (\<forall>r2 tr2 project.
            loadCodeAssist e (access_token (auth (account s))) tr1 = (Inr r2, tr2)
            \<and> get_prop ''cloudaicompanionProject'' r2 = Inr project
          \<longrightarrow> (\<exists>key. template (access_token (auth (account s))) = Inr key
                \<and> trace (snd (fetchData e s)) =
                    tr2 @ [Fetch (post_request ''/v1internal:fetchAvailableModels''
                             (project_data project)
                             [(''Authorization'', ''Bearer '' @ key)])]))"
proof -
  let ?k = "access_token (auth (account s))"
  let ?load = "\<lambda>key. Fetch (post_request ''/v1internal:loadCodeAssist''
                  (JObj [(''metadata'', JObj [(''ideType'', JStr ''ANTIGRAVITY'')])])
                  [(''Authorization'', ''Bearer '' @ key)])"
  from loadCodeAssist_resolved_trace [OF assms]
  obtain key where key: "template ?k = Inr key" and tr1: "tr1 = trace s @ [?load key]"
    by blast
  have run: "fetchData e s = list_models_and_store e (s\<lparr>trace := tr1\<rparr>)"
    by (simp add: fetchData_def refresh_if_error_resolved [OF assms])
  have second: "snd (loadCodeAssist e ?k tr1) = tr1 @ [?load key]"
    by (simp add: loadCodeAssist_unfold key Let_def)
  have count: "session_init_calls (trace (snd (list_models_and_store e (s\<lparr>trace := tr1\<rparr>))))
                 = session_init_calls tr1 + 1"
    using second
    by (auto simp: list_models_and_store_def Let_def split: prod.splits sum.splits
        dest!: fetchAvailableModels_session_init_calls)
  have a: "session_init_calls (trace (snd (fetchData e s))) = session_init_calls (trace s) + 2"
    unfolding run count by (simp add: tr1)
  have b: "refresh_calls (trace (snd (fetchData e s))) = refresh_calls (trace s)"
    using loadCodeAssist_refresh_calls [OF assms]
    by (simp add: run list_models_and_store_refresh_calls)
  have c: "account (snd (fetchData e s)) = account s"
    by (simp add: run list_models_and_store_account)
  have d: "\<exists>key. template ?k = Inr key
                \<and> trace (snd (fetchData e s)) =
                    tr2 @ [Fetch (post_request ''/v1internal:fetchAvailableModels''
                             (project_data project)
                             [(''Authorization'', ''Bearer '' @ key)])]"
    if "loadCodeAssist e ?k tr1 = (Inr r2, tr2) \<and> get_prop ''cloudaicompanionProject'' r2 = Inr project"
    for r2 tr2 project
    using that key
    by (auto simp: run list_models_and_store_def fetchAvailableModels_unfold Let_def
        split: sum.splits)
  from a b c d show ?thesis by blast
qed

theorem session_call_is_repeated_witness:
  "session_init_calls (trace (snd (fetchData no_project_env (start bob)))) = 2
   \<and> refresh_calls (trace (snd (fetchData no_project_env (start bob)))) = 0
   \<and> account (snd (fetchData no_project_env (start bob))) = bob
   \<and> trace (snd (fetchData no_project_env (start bob))) =
       [Fetch (post_request ''/v1internal:loadCodeAssist''
                  (JObj [(''metadata'', JObj [(''ideType'', JStr ''ANTIGRAVITY'')])])
                  [(''Authorization'', ''Bearer at-bob-old'')]),
        Fetch (post_request ''/v1internal:loadCodeAssist''
                  (JObj [(''metadata'', JObj [(''ideType'', JStr ''ANTIGRAVITY'')])])
                  [(''Authorization'', ''Bearer at-bob-old'')]),
        Fetch (post_request ''/v1internal:fetchAvailableModels'' (JObj [])
                  [(''Authorization'', ''Bearer at-bob-old'')])]"
proof -
  let ?session = "Fetch (post_request ''/v1internal:loadCodeAssist''
                  (JObj [(''metadata'', JObj [(''ideType'', JStr ''ANTIGRAVITY'')])])
                  [(''Authorization'', ''Bearer at-bob-old'')])"
  have first: "loadCodeAssist no_project_env (access_token (auth (account (start bob))))
       (trace (start bob)) = (Inr (JObj []), [?session])"
    by (simp add: run_defs)
  have second: "loadCodeAssist no_project_env (access_token (auth (account (start bob))))
       [?session] = (Inr (JObj []), [?session, ?session])
     \<and> get_prop ''cloudaicompanionProject'' (JObj []) = Inr None"
    by (simp add: run_defs)
  note w = session_call_is_repeated [OF first]
  from w second
  obtain key where "template (access_token (auth (account (start bob)))) = Inr key"
    and "trace (snd (fetchData no_project_env (start bob))) =
           [?session, ?session] @ [Fetch (post_request ''/v1internal:fetchAvailableModels''
                             (project_data None) [(''Authorization'', ''Bearer '' @ key)])]"
    by blast
  then have "trace (snd (fetchData no_project_env (start bob))) =
       [?session, ?session,
        Fetch (post_request ''/v1internal:fetchAvailableModels'' (JObj [])
                  [(''Authorization'', ''Bearer at-bob-old'')])]"
    by (auto simp: start_def bob_def template_def project_data_def)
  with w show ?thesis by (simp add: start_def session_init_calls_def refresh_calls_def)
qed

text \<open>
  C5. Whatever \<^verbatim>\<open>fetchData\<close> does, the account object it leaves differs from the one it
  was given in \<open>auth.access_token\<close> at most: id token (the refresh handle), context, raw
  state and token state are the same. When the refresh grant was called and resolved, the
  access token is the \<^verbatim>\<open>access_token\<close> property of its response, and the assignment is
  to the object in memory only: the external calls of the whole run are the session
  request, the query for the current account and the refresh request, followed by nothing,
  by the second session request, or by the second session request and the listing
  request. Nothing else is called, so nothing is written to a file or a backup; the raw
  state is untouched and the store, also in memory, gains the account's own entry at most.
\<close>

theorem refresh_assigns_only_the_access_token:
  "account (snd (fetchData e s)) =
     (account s)\<lparr>auth := (auth (account s))
        \<lparr>access_token := access_token (auth (account (snd (fetchData e s))))\<rparr>\<rparr>
   \<and> (\<forall>ex tr1 current response tr3.
        loadCodeAssist e (access_token (auth (account s))) (trace s) = (Inl ex, tr1)
        \<and> error_in ex = Inr True
        \<and> getCurrentAntigravityAccount e tr1 = Inr current
        \<and> Some (email (context' (account s))) \<noteq> map_option (\<lambda>c. email (context' c)) current
        \<and> refreshAccessToken e (id_token (auth (account s))) (tr1 @ [GetCurrentAccount])
             = (Inr response, tr3)
        \<longrightarrow> get_prop ''access_token'' response
              = Inr (access_token (auth (account (snd (fetchData e s)))))
          \<and> raw_state (account (snd (fetchData e s))) = raw_state (account s)
          \<and> (data (snd (fetchData e s)) = data s
              \<or> (\<exists>m. data (snd (fetchData e s))
                       = (data s)(email (context' (account s)) \<mapsto> m)))
          \<and> (\<exists>key clientId clientSecret rest.
                trace (snd (fetchData e s)) =
                  trace s
                  @ [Fetch (loadCodeAssist_request key),
                     GetCurrentAccount,
                     Fetch (refresh_request clientId clientSecret
                              (id_token (auth (account s))))]
                  @ rest
              \<and> (rest = []
                  \<or> (\<exists>key'. rest = [Fetch (loadCodeAssist_request key')])
                  \<or> (\<exists>key' project.
                        rest = [Fetch (loadCodeAssist_request key'),
                                Fetch (fetchAvailableModels_request key' project)]))))"
proof (intro conjI allI impI)
  obtain f s1 where r: "refresh_if_error e s = (f, s1)" by (cases "refresh_if_error e s")
  have "account (snd (fetchData e s)) = account s1"
    using r by (cases f) (simp_all add: fetchData_def list_models_and_store_account)
  with refresh_if_error_frame [OF r]
  show "account (snd (fetchData e s)) =
     (account s)\<lparr>auth := (auth (account s))
        \<lparr>access_token := access_token (auth (account (snd (fetchData e s))))\<rparr>\<rparr>"
    by simp
next
  fix ex tr1 current response tr3
  assume h: "loadCodeAssist e (access_token (auth (account s))) (trace s) = (Inl ex, tr1)
        \<and> error_in ex = Inr True
        \<and> getCurrentAntigravityAccount e tr1 = Inr current
        \<and> Some (email (context' (account s))) \<noteq> map_option (\<lambda>c. email (context' c)) current
        \<and> refreshAccessToken e (id_token (auth (account s))) (tr1 @ [GetCurrentAccount])
             = (Inr response, tr3)"
  from refresh_if_error_refreshed [of e s ex tr1 current response tr3] h
  obtain tok where tok: "get_prop ''access_token'' response = Inr tok"
    and r: "refresh_if_error e s =
             (Continue,
              s\<lparr>trace := tr3,
                account := (account s)\<lparr>auth := (auth (account s))\<lparr>access_token := tok\<rparr>\<rparr>\<rparr>)"
    by blast
  let ?s1 = "s\<lparr>trace := tr3,
                account := (account s)\<lparr>auth := (auth (account s))\<lparr>access_token := tok\<rparr>\<rparr>\<rparr>"
  have run: "fetchData e s = list_models_and_store e ?s1"
    by (simp add: fetchData_def r)
  have "access_token (auth (account (snd (fetchData e s)))) = tok"
    by (simp add: run list_models_and_store_account)
  with tok show "get_prop ''access_token'' response
              = Inr (access_token (auth (account (snd (fetchData e s)))))"
    by simp
  show "raw_state (account (snd (fetchData e s))) = raw_state (account s)"
    by (simp add: run list_models_and_store_account)
  from list_models_and_store_data_cases [of e ?s1]
  show "data (snd (fetchData e s)) = data s
      \<or> (\<exists>m. data (snd (fetchData e s)) = (data s)(email (context' (account s)) \<mapsto> m))"
    by (simp add: run)
  from h loadCodeAssist_error_trace [of e _ "trace s" ex tr1]
  obtain key where key: "tr1 = trace s @ [Fetch (loadCodeAssist_request key)]"
    by blast
  from h refreshAccessToken_resolved_trace [of e _ "tr1 @ [GetCurrentAccount]" response tr3]
  obtain clientId clientSecret where
    tr3: "tr3 = (tr1 @ [GetCurrentAccount])
             @ [Fetch (refresh_request clientId clientSecret (id_token (auth (account s))))]"
    by blast
  from list_models_and_store_trace [of e ?s1]
  obtain rest where rest: "trace (snd (list_models_and_store e ?s1)) = tr3 @ rest"
    and shape: "rest = []
        \<or> (\<exists>key'. rest = [Fetch (loadCodeAssist_request key')])
        \<or> (\<exists>key' project. rest = [Fetch (loadCodeAssist_request key'),
                                      Fetch (fetchAvailableModels_request key' project)])"
    by auto
  have "trace (snd (fetchData e s)) =
          trace s
          @ [Fetch (loadCodeAssist_request key), GetCurrentAccount,
             Fetch (refresh_request clientId clientSecret (id_token (auth (account s))))]
          @ rest"
    unfolding run rest by (simp add: tr3 key)
  with shape
  show "\<exists>key clientId clientSecret rest.
                trace (snd (fetchData e s)) =
                  trace s
                  @ [Fetch (loadCodeAssist_request key),
                     GetCurrentAccount,
                     Fetch (refresh_request clientId clientSecret
                              (id_token (auth (account s))))]
                  @ rest
              \<and> (rest = []
                  \<or> (\<exists>key'. rest = [Fetch (loadCodeAssist_request key')])
                  \<or> (\<exists>key' project.
                        rest = [Fetch (loadCodeAssist_request key'),
                                Fetch (fetchAvailableModels_request key' project)]))"
    by blast
qed

theorem refresh_assigns_only_the_access_token_witness:
  "account (snd (fetchData expired_env (start bob))) =
     bob\<lparr>auth := (auth bob)\<lparr>access_token := Some (JStr ''at-bob-new'')\<rparr>\<rparr>
   \<and> raw_state (account (snd (fetchData expired_env (start bob)))) = raw_state bob
   \<and> trace (snd (fetchData expired_env (start bob))) =
       [Fetch (loadCodeAssist_request ''at-bob-old''),
        GetCurrentAccount,
        Fetch (refresh_request ''client-1'' None ''idt-bob''),
        Fetch (loadCodeAssist_request ''at-bob-new''),
        Fetch (fetchAvailableModels_request ''at-bob-new'' (Some (JStr ''project-7'')))]"
proof -
  let ?ex = "Json (JObj [(''error'', JObj [(''code'', JNum ''401'')])])"
  let ?tr1 = "[Fetch (loadCodeAssist_request ''at-bob-old'')]"
  let ?response = "JObj [(''access_token'', JStr ''at-bob-new'')]"
  let ?tr3 = "?tr1 @ [GetCurrentAccount, Fetch (refresh_request ''client-1'' None ''idt-bob'')]"
  have h: "loadCodeAssist expired_env (access_token (auth (account (start bob))))
              (trace (start bob)) = (Inl ?ex, ?tr1)
        \<and> error_in ?ex = Inr True
        \<and> getCurrentAntigravityAccount expired_env ?tr1 = Inr (Some alice)
        \<and> Some (email (context' (account (start bob))))
            \<noteq> map_option (\<lambda>c. email (context' c)) (Some alice)
        \<and> refreshAccessToken expired_env (id_token (auth (account (start bob))))
             (?tr1 @ [GetCurrentAccount]) = (Inr ?response, ?tr3)"
    by (simp add: run_defs)
  from refresh_assigns_only_the_access_token [of expired_env "start bob"] h
  have "account (snd (fetchData expired_env (start bob))) =
     (account (start bob))\<lparr>auth := (auth (account (start bob)))
        \<lparr>access_token := access_token (auth (account (snd (fetchData expired_env (start bob)))))\<rparr>\<rparr>"
    and "get_prop ''access_token'' ?response
              = Inr (access_token (auth (account (snd (fetchData expired_env (start bob))))))"
    and "raw_state (account (snd (fetchData expired_env (start bob))))
              = raw_state (account (start bob))"
    by blast+
  moreover have "trace (snd (fetchData expired_env (start bob))) =
       [Fetch (loadCodeAssist_request ''at-bob-old''),
        GetCurrentAccount,
        Fetch (refresh_request ''client-1'' None ''idt-bob''),
        Fetch (loadCodeAssist_request ''at-bob-new''),
        Fetch (fetchAvailableModels_request ''at-bob-new'' (Some (JStr ''project-7'')))]"
    by (simp add: run_defs)
  ultimately show ?thesis by (simp add: start_def)
qed

text \<open>
  C6. With an authenticated cipher that opens what it sealed, decoding what \<open>encode\<close>
  produced, under the same password, gives the payload back, whatever salt and nonce
  \<open>encode\<close> drew.
\<close>

theorem decode_encode_round_trip:
  assumes "aead_correct c"
  shows "decode c (encode c fresh_salt fresh_nonce P W) W = Inr P"
  using assms by (simp add: decode_def encode_def aead_correct_def)

theorem decode_encode_round_trip_witness:
  "aead_correct toy_primitives
   \<and> decode toy_primitives (encode toy_primitives [1, 2] [3] [115, 101, 115] ''abcd1234'')
       ''abcd1234'' = Inr [115, 101, 115]"
proof -
  have ok: "aead_correct toy_primitives"
    by (simp add: aead_correct_def toy_primitives_def)
  from decode_encode_round_trip [OF ok] ok show ?thesis by simp
qed




text \<open>
  C8, as the claim states it, fails: the code has no check of the project id. In
  \<open>no_project_env\<close> the session response names no project, and \<^verbatim>\<open>fetchData\<close> still
  requests the model listing (with no \<^verbatim>\<open>project\<close> in the body), resolves, and caches the
  result under the account's email.
\<close>

theorem missing_project_counterexample:
  "get_prop ''cloudaicompanionProject'' (JObj []) = Inr None
   \<and> fetchData no_project_env (start bob) =
       (Inr (),
        \<lparr>account = bob,
         data = [''bob@example.com'' \<mapsto> JObj [(''models'', JObj [])]],
         trace =
           [Fetch (post_request ''/v1internal:loadCodeAssist''
              (JObj [(''metadata'', JObj [(''ideType'', JStr ''ANTIGRAVITY'')])])
              [(''Authorization'', ''Bearer at-bob-old'')]),
            Fetch (post_request ''/v1internal:loadCodeAssist''
              (JObj [(''metadata'', JObj [(''ideType'', JStr ''ANTIGRAVITY'')])])
              [(''Authorization'', ''Bearer at-bob-old'')]),
            Fetch (post_request ''/v1internal:fetchAvailableModels'' (JObj [])
              [(''Authorization'', ''Bearer at-bob-old'')])]\<rparr>)"
  by (simp add: run_defs)

text \<open>
  C8, amended. Once the session call before the listing has resolved, the model listing is
  requested for the \<^verbatim>\<open>cloudaicompanionProject\<close> of that response, present or not, and
  when the listing resolves \<^verbatim>\<open>fetchData\<close> resolves with the listing cached under the
  account's email; when it is rejected, so is \<^verbatim>\<open>fetchData\<close>, and the store is unchanged.
\<close>

theorem listing_is_keyed_by_project_and_cached_by_email:
  assumes "refresh_if_error e s = (Continue, s1)"
    and "loadCodeAssist e (access_token (auth (account s1))) (trace s1) = (Inr r, tr1)"
  shows "\<exists>project key.
           get_prop ''cloudaicompanionProject'' r = Inr project
         \<and> template (access_token (auth (account s1))) = Inr key
         \<and> trace (snd (fetchData e s)) =
             tr1 @ [Fetch (post_request ''/v1internal:fetchAvailableModels''
                      (project_data project) [(''Authorization'', ''Bearer '' @ key)])]
         \<and> (\<forall>m. fst (fetchAvailableModels e (access_token (auth (account s1))) project tr1)
                   = Inr m
              \<longrightarrow> fst (fetchData e s) = Inr ()
                \<and> data (snd (fetchData e s)) = (data s)(email (context' (account s)) \<mapsto> m))
         \<and> (\<forall>ex. fst (fetchAvailableModels e (access_token (auth (account s1))) project tr1)
                   = Inl ex
              \<longrightarrow> fst (fetchData e s) = Inl ex \<and> data (snd (fetchData e s)) = data s)"
proof -
  let ?k = "access_token (auth (account s1))"
  from loadCodeAssist_resolved [OF assms(2)] get_prop_object
  obtain project where project: "get_prop ''cloudaicompanionProject'' r = Inr project"
    by blast
  from loadCodeAssist_resolved_trace [OF assms(2)]
  obtain key where key: "template ?k = Inr key" by blast
  from refresh_if_error_frame [OF assms(1)] have d: "data s1 = data s" by simp
  note a = refresh_if_error_email [OF assms(1)]
  have run: "fetchData e s = list_models_and_store e s1"
    by (simp add: fetchData_def assms(1))
  have 1: "trace (snd (fetchData e s)) =
             tr1 @ [Fetch (post_request ''/v1internal:fetchAvailableModels''
                      (project_data project) [(''Authorization'', ''Bearer '' @ key)])]"
    using assms(2) project key
    by (auto simp: run list_models_and_store_def fetchAvailableModels_unfold Let_def
        split: sum.splits)
  have 2: "fst (fetchData e s) = Inr ()
         \<and> data (snd (fetchData e s)) = (data s)(email (context' (account s)) \<mapsto> m)"
    if "fst (fetchAvailableModels e ?k project tr1) = Inr m" for m
    using that assms(2) project d a
    by (auto simp: run list_models_and_store_def Let_def split: prod.splits sum.splits)
  have 3: "fst (fetchData e s) = Inl ex \<and> data (snd (fetchData e s)) = data s"
    if "fst (fetchAvailableModels e ?k project tr1) = Inl ex" for ex
    using that assms(2) project d a
    by (auto simp: run list_models_and_store_def Let_def split: prod.splits sum.splits)
  from project key 1 2 3 show ?thesis by blast
qed

theorem listing_is_keyed_by_project_and_cached_by_email_witness:
  "fst (fetchData expired_env (start bob)) = Inr ()
   \<and> data (snd (fetchData expired_env (start bob))) =
       [''bob@example.com'' \<mapsto> JObj [(''models'', JObj [])]]
   \<and> last (trace (snd (fetchData expired_env (start bob)))) =
        Fetch (post_request ''/v1internal:fetchAvailableModels''
                 (JObj [(''project'', JStr ''project-7'')])
                 [(''Authorization'', ''Bearer at-bob-new'')])"
proof -
  let ?tr0 = "[Fetch (post_request ''/v1internal:loadCodeAssist''
                  (JObj [(''metadata'', JObj [(''ideType'', JStr ''ANTIGRAVITY'')])])
                  [(''Authorization'', ''Bearer at-bob-old'')]),
               GetCurrentAccount,
               Fetch (refresh_request ''client-1'' None ''idt-bob'')]"
  let ?s1 = "\<lparr>account = bob\<lparr>auth := (auth bob)\<lparr>access_token := Some (JStr ''at-bob-new'')\<rparr>\<rparr>,
              data = Map.empty, trace = ?tr0\<rparr>"
  let ?r = "JObj [(''cloudaicompanionProject'', JStr ''project-7'')]"
  let ?tr1 = "?tr0 @ [Fetch (post_request ''/v1internal:loadCodeAssist''
                  (JObj [(''metadata'', JObj [(''ideType'', JStr ''ANTIGRAVITY'')])])
                  [(''Authorization'', ''Bearer at-bob-new'')])]"
  have h1: "refresh_if_error expired_env (start bob) = (Continue, ?s1)"
    by (simp add: run_defs)
  have h2: "loadCodeAssist expired_env (access_token (auth (account ?s1))) (trace ?s1)
              = (Inr ?r, ?tr1)"
    by (simp add: run_defs)
  from listing_is_keyed_by_project_and_cached_by_email [OF h1 h2]
  obtain project key where
    p: "get_prop ''cloudaicompanionProject'' ?r = Inr project"
    and k: "template (access_token (auth (account ?s1))) = Inr key"
    and t: "trace (snd (fetchData expired_env (start bob))) =
             ?tr1 @ [Fetch (post_request ''/v1internal:fetchAvailableModels''
                      (project_data project) [(''Authorization'', ''Bearer '' @ key)])]"
    and m: "\<forall>m. fst (fetchAvailableModels expired_env (access_token (auth (account ?s1)))
                     project ?tr1) = Inr m
              \<longrightarrow> fst (fetchData expired_env (start bob)) = Inr ()
                \<and> data (snd (fetchData expired_env (start bob))) =
                    (data (start bob))(email (context' (account (start bob))) \<mapsto> m)"
    by blast
  from p have project: "project = Some (JStr ''project-7'')" by simp
  from k have key: "key = ''at-bob-new''" by (simp add: template_def)
  have "fst (fetchAvailableModels expired_env (access_token (auth (account ?s1)))
                     project ?tr1) = Inr (JObj [(''models'', JObj [])])"
    unfolding project by (simp add: run_defs)
  with m have "fst (fetchData expired_env (start bob)) = Inr ()
                \<and> data (snd (fetchData expired_env (start bob))) =
                    (data (start bob))(email (context' (account (start bob)))
                       \<mapsto> JObj [(''models'', JObj [])])"
    by blast
  with t project key show ?thesis by (simp add: start_def bob_def project_data_def)
qed

text \<open>
  C9. A call of \<^verbatim>\<open>fetchData\<close> leaves the cached listing of every other email as it was:
  the store afterwards is the store before, or the store before with the entry of the
  account's own email set.
\<close>

theorem other_cache_entries_are_kept:
  "(\<forall>k. k \<noteq> email (context' (account s)) \<longrightarrow> data (snd (fetchData e s)) k = data s k)
   \<and> (data (snd (fetchData e s)) = data s
       \<or> (\<exists>m. data (snd (fetchData e s)) = (data s)(email (context' (account s)) \<mapsto> m)))"
proof -
  obtain f s1 where r: "refresh_if_error e s = (f, s1)" by (cases "refresh_if_error e s")
  from refresh_if_error_frame [OF r] have d: "data s1 = data s" by simp
  note a = refresh_if_error_email [OF r]
  have 1: "\<forall>k. k \<noteq> email (context' (account s)) \<longrightarrow> data (snd (fetchData e s)) k = data s k"
    using r d a by (cases f) (auto simp: fetchData_def list_models_and_store_data)
  have "data (snd (fetchData e s)) = data s
       \<or> (\<exists>m. data (snd (fetchData e s)) = (data s)(email (context' (account s)) \<mapsto> m))"
    using r d a list_models_and_store_data_cases [of e s1] by (cases f) (auto simp: fetchData_def)
  with 1 show ?thesis by blast
qed

theorem other_cache_entries_are_kept_witness:
  "data (snd (fetchData healthy_env
      \<lparr>account = bob, data = [''alice@example.com'' \<mapsto> JObj []], trace = []\<rparr>))
     ''alice@example.com'' = Some (JObj [])
   \<and> data (snd (fetchData healthy_env
      \<lparr>account = bob, data = [''alice@example.com'' \<mapsto> JObj []], trace = []\<rparr>))
     ''bob@example.com'' = Some (JObj [(''models'', JObj [])])"
proof -
  let ?s = "\<lparr>account = bob, data = [''alice@example.com'' \<mapsto> JObj []], trace = []\<rparr>"
  have ne: "''alice@example.com'' \<noteq> email (context' (account ?s))"
    by (simp add: bob_def)
  from other_cache_entries_are_kept [of ?s healthy_env] ne
  have "data (snd (fetchData healthy_env ?s)) ''alice@example.com'' = data ?s ''alice@example.com''"
    by blast
  moreover have "data (snd (fetchData healthy_env ?s)) ''bob@example.com''
      = Some (JObj [(''models'', JObj [])])"
    by (simp add: run_defs)
  ultimately show ?thesis by simp
qed

text \<open>
  C10. With no client id (the variable \<^verbatim>\<open>VITE_GOOGLE_OAUTH_CLIENT_ID\<close> undefined or empty)
  \<^verbatim>\<open>refreshAccessToken\<close> is rejected with the error and the trace is unchanged: nothing was
  requested. With a client id it makes one request, to the token endpoint, whose body is
  \<^verbatim>\<open>client_id\<close>, \<^verbatim>\<open>grant_type=refresh_token\<close> and \<^verbatim>\<open>refresh_token\<close>, followed by
  \<^verbatim>\<open>client_secret\<close> exactly when a non-empty client secret is configured.
\<close>

theorem refresh_request_needs_client_id:
  "(VITE_GOOGLE_OAUTH_CLIENT_ID e = None \<or> VITE_GOOGLE_OAUTH_CLIENT_ID e = Some []
      \<longrightarrow> refreshAccessToken e refresh_token tr =
            (Inl (ErrorObj ''Error''
               ''Missing VITE_GOOGLE_OAUTH_CLIENT_ID (Google OAuth client_id)''), tr))
   \<and> (\<forall>clientId. VITE_GOOGLE_OAUTH_CLIENT_ID e = Some clientId \<and> clientId \<noteq> []
      \<longrightarrow> (\<exists>req. snd (refreshAccessToken e refresh_token tr) = tr @ [Fetch req]
            \<and> url req = GOOGLE_OAUTH_TOKEN_ENDPOINT
            \<and> payload req = FormBody
                ([(''client_id'', clientId),
                  (''grant_type'', ''refresh_token''),
                  (''refresh_token'', refresh_token)]
                 @ (case VITE_GOOGLE_OAUTH_CLIENT_SECRET e of
                      None \<Rightarrow> []
                    | Some sec \<Rightarrow> if sec = [] then [] else [(''client_secret'', sec)]))))"
  by (auto simp: refreshAccessToken_def getGoogleOAuthClientCredentials_def Let_def
        refresh_request_def refresh_body_def
      split: option.splits sum.splits)

theorem refresh_request_needs_client_id_witness:
  "refreshAccessToken no_project_env ''rt'' [] =
     (Inl (ErrorObj ''Error''
        ''Missing VITE_GOOGLE_OAUTH_CLIENT_ID (Google OAuth client_id)''), [])
   \<and> (\<exists>req. snd (refreshAccessToken healthy_env ''rt'' []) = [Fetch req]
        \<and> url req = GOOGLE_OAUTH_TOKEN_ENDPOINT
        \<and> payload req = FormBody
            [(''client_id'', ''client-1''), (''grant_type'', ''refresh_token''),
             (''refresh_token'', ''rt''), (''client_secret'', ''secret-1'')])"
proof -
  have a: "VITE_GOOGLE_OAUTH_CLIENT_ID no_project_env = None"
    by (simp add: no_project_env_def)
  have b: "VITE_GOOGLE_OAUTH_CLIENT_ID healthy_env = Some ''client-1'' \<and> ''client-1'' \<noteq> []"
    by (simp add: healthy_env_def)
  have c: "VITE_GOOGLE_OAUTH_CLIENT_SECRET healthy_env = Some ''secret-1''"
    by (simp add: healthy_env_def)
  from refresh_request_needs_client_id [of no_project_env "''rt''" "[]"] a
  have 1: "refreshAccessToken no_project_env ''rt'' [] =
     (Inl (ErrorObj ''Error''
        ''Missing VITE_GOOGLE_OAUTH_CLIENT_ID (Google OAuth client_id)''), [])"
    by blast
  from refresh_request_needs_client_id [of healthy_env "''rt''" "[]"] b
  have "\<exists>req. snd (refreshAccessToken healthy_env ''rt'' []) = [] @ [Fetch req]
            \<and> url req = GOOGLE_OAUTH_TOKEN_ENDPOINT
            \<and> payload req = FormBody
                ([(''client_id'', ''client-1''),
                  (''grant_type'', ''refresh_token''),
                  (''refresh_token'', ''rt'')]
                 @ (case VITE_GOOGLE_OAUTH_CLIENT_SECRET healthy_env of
                      None \<Rightarrow> []
                    | Some sec \<Rightarrow> if sec = [] then [] else [(''client_secret'', sec)]))"
    by blast
  with c have 2: "\<exists>req. snd (refreshAccessToken healthy_env ''rt'' []) = [Fetch req]
        \<and> url req = GOOGLE_OAUTH_TOKEN_ENDPOINT
        \<and> payload req = FormBody
            [(''client_id'', ''client-1''), (''grant_type'', ''refresh_token''),
             (''refresh_token'', ''rt''), (''client_secret'', ''secret-1'')]"
    by simp
  from 1 2 show ?thesis by blast
qed

end
